theory Spec2Isabelle
  imports Main "HOL-Library.Word"
begin

section \<open>Vocabulary used by the sync class\<close>

text \<open>
  Modelled from the spec: the enumerations \<open>pipeline_stage\<close> and \<open>memory_access\<close> and the
  wrappers \<open>read_memory_access\<close> and \<open>write_memory_access\<close> are declared in another header
  of the framework. The spec treats them as an opaque flag vocabulary that is passed
  through unchanged, so only the enumerators named in \<open>sync_vulkan.hpp\<close> are told apart.
\<close>

datatype pipeline_stage = all_commands | other_pipeline_stage nat

datatype memory_access = any_write_access | any_read_access | other_memory_access nat

datatype read_memory_access = read_memory_access memory_access

datatype write_memory_access = write_memory_access memory_access

text \<open>
  Modelled from the spec: \<open>command_buffer_t::establish_global_memory_barrier\<close> is the
  barrier primitive of the graphics API wrapper and is not part of the two files. A command
  buffer is the sequence of calls to that primitive recorded into it, each call with the
  four arguments exactly as they stand at the call site: a plain \<open>memory_access\<close>, an
  optional read access, or an optional write access.
\<close>

datatype access_argument =
    plain_access memory_access
  | optional_read_access "read_memory_access option"
  | optional_write_access "write_memory_access option"

datatype barrier_call =
  global_memory_barrier pipeline_stage pipeline_stage access_argument access_argument

record command_buffer_t =
  recorded_calls :: "barrier_call list"

definition establish_global_memory_barrier ::
  "command_buffer_t \<Rightarrow> pipeline_stage \<Rightarrow> pipeline_stage \<Rightarrow> access_argument \<Rightarrow> access_argument
    \<Rightarrow> command_buffer_t" where
  "establish_global_memory_barrier aCommandBuffer aSrcStage aDstStage aSrcAccess aDstAccess =
     aCommandBuffer\<lparr>recorded_calls :=
       recorded_calls aCommandBuffer @ [global_memory_barrier aSrcStage aDstStage aSrcAccess aDstAccess]\<rparr>"

section \<open>The handlers defined in sync_vulkan.hpp\<close>

type_synonym before_signature =
  "command_buffer_t \<Rightarrow> pipeline_stage \<Rightarrow> read_memory_access option \<Rightarrow> command_buffer_t"

type_synonym after_signature =
  "command_buffer_t \<Rightarrow> pipeline_stage \<Rightarrow> write_memory_access option \<Rightarrow> command_buffer_t"

text \<open>The two sentinels have empty bodies: they leave the command buffer as it is.\<close>

definition steal_before_handler :: before_signature where
  "steal_before_handler aCommandBuffer aStage aAccess = aCommandBuffer"

definition steal_after_handler :: after_signature where
  "steal_after_handler aCommandBuffer aStage aAccess = aCommandBuffer"

definition default_handler_before_operation :: before_signature where
  "default_handler_before_operation aCommandBuffer aDestinationStage aDestinationAccess =
     establish_global_memory_barrier aCommandBuffer
       all_commands aDestinationStage
       (plain_access any_write_access) (optional_read_access aDestinationAccess)"

definition default_handler_after_operation :: after_signature where
  "default_handler_after_operation aCommandBuffer aSourceStage aSourceAccess =
     establish_global_memory_barrier aCommandBuffer
       aSourceStage all_commands
       (optional_write_access aSourceAccess) (plain_access any_read_access)"

section \<open>std::function and the stolen-handler detection\<close>

text \<open>
  A \<open>std::function\<close> is empty, or stores a plain function pointer of the exact type asked
  for by \<open>target\<close>, or stores a target of any other type (a closure, a function object).
  Pointers are compared by the function they point to: the two functions of each signature
  that the header defines have a constructor of their own, every other function of that
  signature is \<open>ptr_other_..._function\<close> with its body, so a function whose body does the
  same as a sentinel is still a different pointer.
\<close>

datatype ('p, 'c) std_function = empty_function | function_pointer 'p | other_target 'c

datatype before_function_ptr =
    ptr_steal_before_handler
  | ptr_default_handler_before_operation
  | ptr_other_before_function before_signature

datatype after_function_ptr =
    ptr_steal_after_handler
  | ptr_default_handler_after_operation
  | ptr_other_after_function after_signature

type_synonym before_hook = "(before_function_ptr, before_signature) std_function"

type_synonym after_hook = "(after_function_ptr, after_signature) std_function"

text \<open>\<open>target<T>()\<close> for \<open>T\<close> the plain function pointer type: null unless such a pointer is stored.\<close>

fun target :: "('p, 'c) std_function \<Rightarrow> 'p option" where
  "target empty_function = None"
| "target (function_pointer p) = Some p"
| "target (other_target c) = None"

definition is_before_handler_stolen :: "before_hook \<Rightarrow> bool" where
  "is_before_handler_stolen aToTest =
     (let trgPtr = target aToTest in
      case trgPtr of
        None \<Rightarrow> False
      | Some p \<Rightarrow> (case p of ptr_steal_before_handler \<Rightarrow> True | _ \<Rightarrow> False))"

definition is_after_handler_stolen :: "after_hook \<Rightarrow> bool" where
  "is_after_handler_stolen aToTest =
     (let trgPtr = target aToTest in
      case trgPtr of
        None \<Rightarrow> False
      | Some p \<Rightarrow> (case p of ptr_steal_after_handler \<Rightarrow> True | _ \<Rightarrow> False))"

text \<open>Calling through a pointer runs the function it points to.\<close>

fun call_before_function :: "before_function_ptr \<Rightarrow> before_signature" where
  "call_before_function ptr_steal_before_handler = steal_before_handler"
| "call_before_function ptr_default_handler_before_operation = default_handler_before_operation"
| "call_before_function (ptr_other_before_function f) = f"

fun call_after_function :: "after_function_ptr \<Rightarrow> after_signature" where
  "call_after_function ptr_steal_after_handler = steal_after_handler"
| "call_after_function ptr_default_handler_after_operation = default_handler_after_operation"
| "call_after_function (ptr_other_after_function f) = f"

datatype error = precondition_violation | bad_function_call

text \<open>\<open>operator()\<close> of a \<open>std::function\<close>: an empty one throws \<open>std::bad_function_call\<close>.\<close>

fun invoke_before :: "before_hook \<Rightarrow> command_buffer_t \<Rightarrow> pipeline_stage \<Rightarrow> read_memory_access option
    \<Rightarrow> error + command_buffer_t" where
  "invoke_before empty_function cb s a = Inl bad_function_call"
| "invoke_before (function_pointer p) cb s a = Inr (call_before_function p cb s a)"
| "invoke_before (other_target f) cb s a = Inr (f cb s a)"

fun invoke_after :: "after_hook \<Rightarrow> command_buffer_t \<Rightarrow> pipeline_stage \<Rightarrow> write_memory_access option
    \<Rightarrow> error + command_buffer_t" where
  "invoke_after empty_function cb s a = Inl bad_function_call"
| "invoke_after (function_pointer p) cb s a = Inr (call_after_function p cb s a)"
| "invoke_after (other_target f) cb s a = Inr (f cb s a)"

section \<open>The sync class\<close>

text \<open>
  The queue, the semaphores and the window a policy refers to are objects of other parts
  of the framework; a policy only holds on to them, so each is named by a number.
  A lifetime handler is a \<open>std::function\<close> of which only two things matter here: whether
  it is empty (\<open>None\<close>) and, when it is called, which handler it was.
\<close>

type_synonym device_queue = nat

type_synonym semaphore = nat

type_synonym window = nat

datatype semaphore_handler =
    custom_semaphore_handler nat
  | current_frame_semaphore_handler "window option"

datatype command_buffer_handler =
    custom_command_buffer_handler nat
  | current_frame_command_buffer_handler "window option"
  | master_command_buffer_handler

datatype sync_type = not_required | via_wait_idle | via_semaphore | via_barrier

text \<open>The private fields of the class, in the order of the header.\<close>

record sync =
  mNoSyncRequired :: bool
  mSemaphoreSignalAfterAndLifetimeHandler :: "semaphore_handler option"
  mWaitBeforeSemaphores :: "semaphore list"
  mCommandBufferLifetimeHandler :: "command_buffer_handler option"
  mEstablishBarrierBeforeOperationCallback :: before_hook
  mEstablishBarrierAfterOperationCallback :: after_hook
  mQueueToUse :: "device_queue option"

text \<open>\<open>sync() = default\<close>: every field takes its default member initialiser.\<close>

definition sync_ctor :: sync where
  "sync_ctor =
     \<lparr> mNoSyncRequired = False,
       mSemaphoreSignalAfterAndLifetimeHandler = None,
       mWaitBeforeSemaphores = [],
       mCommandBufferLifetimeHandler = None,
       mEstablishBarrierBeforeOperationCallback = empty_function,
       mEstablishBarrierAfterOperationCallback = empty_function,
       mQueueToUse = None \<rparr>"

subsection \<open>Factories\<close>

text \<open>
  Modelled from the spec: the bodies of the seven static creation functions are in
  \<open>sync_vulkan.cpp\<close>, which is missing; the header gives their parameters and default
  arguments. Each factory starts from a default-constructed policy and fills in what the
  table of section 4.3 of the spec lists as its resulting state: \<open>not_required\<close> has no
  queue and no callbacks, so what sets it apart is the flag \<open>mNoSyncRequired\<close>;
  \<open>wait_idle\<close> takes nothing and leaves the queue for later; the semaphore factories store
  the signal sink and the wait list verbatim; the barrier factories store the lifetime sink
  and the two hooks as given; \<open>auxiliary\<close> installs the given hooks as they are and hands
  the lifetime of its command buffer to the master. The change \<open>auxiliary\<close> makes to the
  master policy itself is not described field by field in the spec and is left out.
\<close>

definition sync_not_required :: sync where
  "sync_not_required = sync_ctor\<lparr>mNoSyncRequired := True\<rparr>"

definition wait_idle :: sync where
  "wait_idle = sync_ctor"

definition with_semaphores :: "semaphore_handler option \<Rightarrow> semaphore list \<Rightarrow> sync" where
  "with_semaphores aSignalledAfterOperation aWaitBeforeOperation =
     sync_ctor\<lparr>mSemaphoreSignalAfterAndLifetimeHandler := aSignalledAfterOperation,
               mWaitBeforeSemaphores := aWaitBeforeOperation\<rparr>"

definition with_semaphores_on_current_frame :: "semaphore list \<Rightarrow> window option \<Rightarrow> sync" where
  "with_semaphores_on_current_frame aWaitBeforeOperation aWindow =
     sync_ctor\<lparr>mSemaphoreSignalAfterAndLifetimeHandler := Some (current_frame_semaphore_handler aWindow),
               mWaitBeforeSemaphores := aWaitBeforeOperation\<rparr>"

definition with_barriers :: "command_buffer_handler option \<Rightarrow> before_hook \<Rightarrow> after_hook \<Rightarrow> sync" where
  "with_barriers aCommandBufferLifetimeHandler aEstablishBarrierBeforeOperation aEstablishBarrierAfterOperation =
     sync_ctor\<lparr>mCommandBufferLifetimeHandler := aCommandBufferLifetimeHandler,
               mEstablishBarrierBeforeOperationCallback := aEstablishBarrierBeforeOperation,
               mEstablishBarrierAfterOperationCallback := aEstablishBarrierAfterOperation\<rparr>"

definition with_barriers_on_current_frame :: "before_hook \<Rightarrow> after_hook \<Rightarrow> window option \<Rightarrow> sync" where
  "with_barriers_on_current_frame aEstablishBarrierBeforeOperation aEstablishBarrierAfterOperation aWindow =
     sync_ctor\<lparr>mCommandBufferLifetimeHandler := Some (current_frame_command_buffer_handler aWindow),
               mEstablishBarrierBeforeOperationCallback := aEstablishBarrierBeforeOperation,
               mEstablishBarrierAfterOperationCallback := aEstablishBarrierAfterOperation\<rparr>"

definition auxiliary :: "sync \<Rightarrow> before_hook \<Rightarrow> after_hook \<Rightarrow> sync" where
  "auxiliary aMasterSync aEstablishBarrierBeforeOperation aEstablishBarrierAfterOperation =
     sync_ctor\<lparr>mCommandBufferLifetimeHandler := Some master_command_buffer_handler,
               mEstablishBarrierBeforeOperationCallback := aEstablishBarrierBeforeOperation,
               mEstablishBarrierAfterOperationCallback := aEstablishBarrierAfterOperation\<rparr>"

text \<open>
  The default arguments of the header, written out at the call: a call of \<open>with_barriers\<close>
  with the lifetime handler alone passes \<open>{}\<close> for the hook before the operation and
  \<open>default_handler_after_operation\<close>, a plain function, for the hook after it.
\<close>

definition with_barriers_default_hooks :: "command_buffer_handler option \<Rightarrow> sync" where
  "with_barriers_default_hooks aCommandBufferLifetimeHandler =
     with_barriers aCommandBufferLifetimeHandler
       empty_function (function_pointer ptr_default_handler_after_operation)"

subsection \<open>Getters and queue binding\<close>

text \<open>
  Modelled from the spec: \<open>get_sync_type\<close> is declared in the header and defined in the
  missing \<open>sync_vulkan.cpp\<close>. The class has no field that stores the strategy, so it is
  read off the fields the header does have. Section 3 of the spec: the semaphore signal
  sink is present only for the semaphore strategy, the command buffer lifetime sink only
  for the barrier strategy. For a policy with neither sink the spec names two strategies,
  "not required" and "wait idle", and speaks of three such policies, the default-constructed
  one and the ones of \<open>not_required\<close> and \<open>wait_idle\<close>, without saying how the fields tell
  the two strategies apart. That reading is therefore a parameter: \<open>aReadsNotRequired\<close>
  says of a policy without sinks whether it reads as "not required"; otherwise it reads as
  "wait idle".
\<close>

definition get_sync_type :: "(sync \<Rightarrow> bool) \<Rightarrow> sync \<Rightarrow> sync_type" where
  "get_sync_type aReadsNotRequired s =
     (if mSemaphoreSignalAfterAndLifetimeHandler s \<noteq> None then via_semaphore
      else if mCommandBufferLifetimeHandler s \<noteq> None then via_barrier
      else if aReadsNotRequired s then not_required
      else via_wait_idle)"

text \<open>
  Modelled from the spec: \<open>on_queue\<close>, \<open>set_queue_hint\<close> and \<open>queue_to_use\<close> are declared
  in the header and defined in the missing \<open>sync_vulkan.cpp\<close>. Section 4.6: \<open>on_queue\<close> is
  the explicit override and always wins; \<open>set_queue_hint\<close> is used only if no binding
  exists and does not overwrite one; \<open>queue_to_use\<close> fails as a precondition violation if
  no binding exists. The header has the single field \<open>mQueueToUse\<close> for the binding.
\<close>

definition on_queue :: "sync \<Rightarrow> device_queue \<Rightarrow> sync" where
  "on_queue s aQueue = s\<lparr>mQueueToUse := Some aQueue\<rparr>"

definition set_queue_hint :: "sync \<Rightarrow> device_queue \<Rightarrow> sync" where
  "set_queue_hint s aQueueRecommendation =
     (case mQueueToUse s of
        None \<Rightarrow> s\<lparr>mQueueToUse := Some aQueueRecommendation\<rparr>
      | Some q \<Rightarrow> s)"

definition queue_to_use :: "sync \<Rightarrow> error + device_queue" where
  "queue_to_use s =
     (case mQueueToUse s of
        None \<Rightarrow> Inl precondition_violation
      | Some q \<Rightarrow> Inr q)"

text \<open>A run of binding calls on one policy, applied from left to right.\<close>

datatype binding_call = call_on_queue device_queue | call_set_queue_hint device_queue

fun apply_binding_call :: "sync \<Rightarrow> binding_call \<Rightarrow> sync" where
  "apply_binding_call s (call_on_queue q) = on_queue s q"
| "apply_binding_call s (call_set_queue_hint q) = set_queue_hint s q"

fun apply_binding_calls :: "sync \<Rightarrow> binding_call list \<Rightarrow> sync" where
  "apply_binding_calls s [] = s"
| "apply_binding_calls s (c # cs) = apply_binding_calls (apply_binding_call s c) cs"

subsection \<open>Barrier establishment\<close>

text \<open>
  Modelled from the spec: \<open>establish_barrier_before_the_operation\<close> and
  \<open>establish_barrier_after_the_operation\<close> are declared in the header and defined in the
  missing \<open>sync_vulkan.cpp\<close>. Section 4.5: if the hook is the stolen-handler sentinel,
  nothing is done; if the hook is unset, the default handler for that direction is invoked;
  otherwise the stored hook is invoked with the same arguments.
\<close>

definition establish_barrier_before_the_operation ::
  "sync \<Rightarrow> command_buffer_t \<Rightarrow> pipeline_stage \<Rightarrow> read_memory_access option \<Rightarrow> error + command_buffer_t" where
  "establish_barrier_before_the_operation s aCommandBuffer aDestinationPipelineStages aDestinationMemoryStages =
     (if is_before_handler_stolen (mEstablishBarrierBeforeOperationCallback s) then Inr aCommandBuffer
      else case mEstablishBarrierBeforeOperationCallback s of
        empty_function \<Rightarrow>
          Inr (default_handler_before_operation aCommandBuffer aDestinationPipelineStages aDestinationMemoryStages)
      | _ \<Rightarrow>
          invoke_before (mEstablishBarrierBeforeOperationCallback s)
            aCommandBuffer aDestinationPipelineStages aDestinationMemoryStages)"

definition establish_barrier_after_the_operation ::
  "sync \<Rightarrow> command_buffer_t \<Rightarrow> pipeline_stage \<Rightarrow> write_memory_access option \<Rightarrow> error + command_buffer_t" where
  "establish_barrier_after_the_operation s aCommandBuffer aSourcePipelineStages aSourceMemoryStages =
     (if is_after_handler_stolen (mEstablishBarrierAfterOperationCallback s) then Inr aCommandBuffer
      else case mEstablishBarrierAfterOperationCallback s of
        empty_function \<Rightarrow>
          Inr (default_handler_after_operation aCommandBuffer aSourcePipelineStages aSourceMemoryStages)
      | _ \<Rightarrow>
          invoke_after (mEstablishBarrierAfterOperationCallback s)
            aCommandBuffer aSourcePipelineStages aSourceMemoryStages)"

subsection \<open>Submission\<close>

text \<open>
  Modelled from the spec: \<open>submit_and_sync\<close> is declared in the header and defined in the
  missing \<open>sync_vulkan.cpp\<close>; the queue's submission call, the creation of a semaphore and
  the handlers are collaborators outside the two files. What they are asked to do is kept
  as a sequence of events. Section 4.4: "not required" hands the buffer to the bound queue
  with no wait and no signal; "wait idle" submits and then blocks until the queue is idle;
  the semaphore strategy submits with the wait list as wait dependencies and a newly
  created semaphore as the signal target, then invokes the signal sink with that semaphore;
  the barrier strategy submits and invokes the lifetime sink with the buffer. Section 7:
  submitting with no queue bound is a precondition violation. The strategy is the one
  \<open>get_sync_type\<close> reads, under the same reading of the policies without sinks.
\<close>

datatype event =
    semaphore_created semaphore
  | submitted device_queue command_buffer_t "semaphore list" "semaphore option"
  | waited_idle device_queue
  | semaphore_handler_invoked semaphore_handler semaphore
  | command_buffer_handler_invoked command_buffer_handler command_buffer_t

record world =
  events :: "event list"
  next_semaphore :: semaphore

definition record_events :: "world \<Rightarrow> event list \<Rightarrow> world" where
  "record_events w es = w\<lparr>events := events w @ es\<rparr>"

definition submit_and_sync ::
  "(sync \<Rightarrow> bool) \<Rightarrow> sync \<Rightarrow> command_buffer_t \<Rightarrow> world \<Rightarrow> error + world" where
  "submit_and_sync aReadsNotRequired s aCommandBuffer w =
     (case queue_to_use s of
        Inl e \<Rightarrow> Inl e
      | Inr q \<Rightarrow>
         (case get_sync_type aReadsNotRequired s of
            not_required \<Rightarrow> Inr (record_events w [submitted q aCommandBuffer [] None])
          | via_wait_idle \<Rightarrow> Inr (record_events w [submitted q aCommandBuffer [] None, waited_idle q])
          | via_semaphore \<Rightarrow>
             (case mSemaphoreSignalAfterAndLifetimeHandler s of
                None \<Rightarrow> Inl bad_function_call
              | Some h \<Rightarrow>
                 (let sem = next_semaphore w in
                  Inr ((record_events w
                         [semaphore_created sem,
                          submitted q aCommandBuffer (mWaitBeforeSemaphores s) (Some sem),
                          semaphore_handler_invoked h sem])
                       \<lparr>next_semaphore := Suc sem\<rparr>)))
          | via_barrier \<Rightarrow>
             (case mCommandBufferLifetimeHandler s of
                None \<Rightarrow> Inl bad_function_call
              | Some h \<Rightarrow>
                 Inr (record_events w
                       [submitted q aCommandBuffer [] None,
                        command_buffer_handler_invoked h aCommandBuffer]))))"

text \<open>How often a semaphore handler was invoked in a run of events.\<close>

fun is_semaphore_handler_invocation :: "event \<Rightarrow> bool" where
  "is_semaphore_handler_invocation (semaphore_handler_invoked h sem) = True"
| "is_semaphore_handler_invocation (semaphore_created sem) = False"
| "is_semaphore_handler_invocation (submitted q cb ws sg) = False"
| "is_semaphore_handler_invocation (waited_idle q) = False"
| "is_semaphore_handler_invocation (command_buffer_handler_invoked h cb) = False"

section \<open>semaphore_t\<close>

text \<open>
  \<open>vk::PipelineStageFlags\<close> is a 32-bit flag word of the graphics API, and
  \<open>vk::PipelineStageFlagBits::eAllCommands\<close> is its bit 16. The create info carries its
  flags; a \<open>vk::UniqueSemaphore\<close> is a handle or null. The custom deleter is an optional
  \<open>unique_function<void()>\<close>, which itself is empty or holds a callable, named by a number.
\<close>

type_synonym PipelineStageFlags = "32 word"

definition eAllCommands :: PipelineStageFlags where
  "eAllCommands = 0x00010000"

record SemaphoreCreateInfo =
  create_flags :: "32 word"

definition SemaphoreCreateInfo_default :: SemaphoreCreateInfo where
  "SemaphoreCreateInfo_default = \<lparr> create_flags = 0 \<rparr>"

datatype unique_function = empty_unique_function | unique_function_target nat

record semaphore_t =
  mCreateInfo :: SemaphoreCreateInfo
  mSemaphore :: "nat option"
  mSemaphoreWaitStageForNextCommand :: PipelineStageFlags
  mCustomDeleter :: "unique_function option"

definition semaphore_t_ctor :: semaphore_t where
  "semaphore_t_ctor =
     \<lparr> mCreateInfo = SemaphoreCreateInfo_default,
       mSemaphore = None,
       mSemaphoreWaitStageForNextCommand = eAllCommands,
       mCustomDeleter = None \<rparr>"

text \<open>
  The destructor. What it does to the outside is a sequence of events: a call of a
  deleter, and then the destruction of the members, which happens after the body and sees
  the object as the body left it.
\<close>

datatype destruction_event = deleter_invoked nat | members_destroyed semaphore_t

definition semaphore_t_dtor_body ::
  "semaphore_t \<Rightarrow> destruction_event list \<Rightarrow> semaphore_t \<times> destruction_event list" where
  "semaphore_t_dtor_body s tr =
     (case mCustomDeleter s of
        Some (unique_function_target d) \<Rightarrow> (s\<lparr>mCustomDeleter := None\<rparr>, tr @ [deleter_invoked d])
      | Some empty_unique_function \<Rightarrow> (s, tr)
      | None \<Rightarrow> (s, tr))"

definition semaphore_t_dtor :: "semaphore_t \<Rightarrow> destruction_event list \<Rightarrow> destruction_event list" where
  "semaphore_t_dtor s tr =
     (case semaphore_t_dtor_body s tr of (s', tr') \<Rightarrow> tr' @ [members_destroyed s'])"

fun deleter_calls :: "destruction_event list \<Rightarrow> nat list" where
  "deleter_calls [] = []"
| "deleter_calls (deleter_invoked d # es) = d # deleter_calls es"
| "deleter_calls (members_destroyed s # es) = deleter_calls es"

text \<open>
  \<open>set_semaphore_wait_stage\<close> changes the object it is called on and returns a reference
  to it. Objects live in a store, at addresses; the method takes the address of its object
  and returns the address the reference refers to, with the store after the call.
\<close>

type_synonym semaphore_store = "nat \<Rightarrow> semaphore_t"

definition set_semaphore_wait_stage ::
  "nat \<Rightarrow> PipelineStageFlags \<Rightarrow> semaphore_store \<Rightarrow> nat \<times> semaphore_store" where
  "set_semaphore_wait_stage this Stage h =
     (this, h(this := (h this)\<lparr>mSemaphoreWaitStageForNextCommand := Stage\<rparr>))"

text \<open>
  \<open>create\<close>: the optional alteration is a function on the object under construction
  (\<open>None\<close> when no function is given); the logical device hands out its next free handle.
\<close>

definition create :: "(semaphore_t \<Rightarrow> semaphore_t) option \<Rightarrow> nat \<Rightarrow> semaphore_t \<times> nat" where
  "create AlterConfigBeforeCreation device =
     (let result = semaphore_t_ctor;
          result = result\<lparr>mCreateInfo := SemaphoreCreateInfo_default\<rparr>;
          result = (case AlterConfigBeforeCreation of None \<Rightarrow> result | Some f \<Rightarrow> f result);
          result = result\<lparr>mSemaphore := Some device\<rparr>
      in (result, Suc device))"

section \<open>Notions of the specification\<close>

text \<open>
  The two strategy-specific groups of fields as the specification names them: the
  semaphore signal sink with the wait list, and the command buffer lifetime sink. A group
  is populated when one of its fields holds something.
\<close>

definition semaphore_fields_populated :: "sync \<Rightarrow> bool" where
  "semaphore_fields_populated s =
     (\<not> (mSemaphoreSignalAfterAndLifetimeHandler s = None \<and> mWaitBeforeSemaphores s = []))"

definition command_buffer_fields_populated :: "sync \<Rightarrow> bool" where
  "command_buffer_fields_populated s = (mCommandBufferLifetimeHandler s \<noteq> None)"

section \<open>The default handlers\<close>

text \<open>
  Claim C1. For every destination stage and optional destination read access,
  \<open>default_handler_before_operation\<close> records exactly one global memory barrier, with
  source stage \<open>all_commands\<close> and source access \<open>any_write_access\<close>, and passes the stage and
  the access it was given through unchanged as destination. \<open>default_handler_after_operation\<close>
  is the mirror image: exactly one barrier, destination stage \<open>all_commands\<close>, destination
  access \<open>any_read_access\<close>, the given stage and access unchanged as source.
\<close>

theorem default_handlers_one_global_barrier:
  "default_handler_before_operation cb S A =
     cb\<lparr>recorded_calls := recorded_calls cb @
       [global_memory_barrier all_commands S (plain_access any_write_access) (optional_read_access A)]\<rparr>
   \<and> default_handler_after_operation cb S' A' =
     cb\<lparr>recorded_calls := recorded_calls cb @
       [global_memory_barrier S' all_commands (optional_write_access A') (plain_access any_read_access)]\<rparr>
   \<and> length (recorded_calls (default_handler_before_operation cb S A)) = Suc (length (recorded_calls cb))
   \<and> length (recorded_calls (default_handler_after_operation cb S' A')) = Suc (length (recorded_calls cb))"
  by (simp add: default_handler_before_operation_def default_handler_after_operation_def
      establish_global_memory_barrier_def)

section \<open>Detection of the stolen handlers\<close>

lemma is_before_handler_stolen_iff:
  "is_before_handler_stolen h \<longleftrightarrow> h = function_pointer ptr_steal_before_handler"
proof (cases h)
  case empty_function
  then show ?thesis by (simp add: is_before_handler_stolen_def)
next
  case (function_pointer p)
  then show ?thesis by (cases p) (simp_all add: is_before_handler_stolen_def)
next
  case (other_target c)
  then show ?thesis by (simp add: is_before_handler_stolen_def)
qed

lemma is_after_handler_stolen_iff:
  "is_after_handler_stolen h \<longleftrightarrow> h = function_pointer ptr_steal_after_handler"
proof (cases h)
  case empty_function
  then show ?thesis by (simp add: is_after_handler_stolen_def)
next
  case (function_pointer p)
  then show ?thesis by (cases p) (simp_all add: is_after_handler_stolen_def)
next
  case (other_target c)
  then show ?thesis by (simp add: is_after_handler_stolen_def)
qed

text \<open>
  Claim C2. \<open>is_before_handler_stolen\<close> is true exactly when the \<open>std::function\<close> stores the
  function pointer \<open>steal_before_handler\<close>, and \<open>is_after_handler_stolen\<close> exactly when it
  stores \<open>steal_after_handler\<close>. The comparison is by identity: an empty function, a
  closure, the default handlers and any other function of the same signature, even one
  whose body equals that of the sentinel, are not stolen.
\<close>

theorem stolen_detection_by_identity:
  "(is_before_handler_stolen hb \<longleftrightarrow> hb = function_pointer ptr_steal_before_handler)
   \<and> (is_after_handler_stolen ha \<longleftrightarrow> ha = function_pointer ptr_steal_after_handler)
   \<and> \<not> is_before_handler_stolen empty_function
   \<and> \<not> is_before_handler_stolen (other_target fb)
   \<and> \<not> is_before_handler_stolen (function_pointer ptr_default_handler_before_operation)
   \<and> \<not> is_before_handler_stolen (function_pointer (ptr_other_before_function fb))
   \<and> \<not> is_before_handler_stolen (function_pointer (ptr_other_before_function steal_before_handler))
   \<and> \<not> is_after_handler_stolen empty_function
   \<and> \<not> is_after_handler_stolen (other_target fa)
   \<and> \<not> is_after_handler_stolen (function_pointer ptr_default_handler_after_operation)
   \<and> \<not> is_after_handler_stolen (function_pointer (ptr_other_after_function fa))
   \<and> \<not> is_after_handler_stolen (function_pointer (ptr_other_after_function steal_after_handler))"
  by (simp add: is_before_handler_stolen_iff is_after_handler_stolen_iff)

section \<open>Barrier establishment\<close>

lemma invoke_before_not_empty:
  "h \<noteq> empty_function \<Longrightarrow> \<exists>cb'. invoke_before h cb S A = Inr cb'"
  by (cases h) simp_all

lemma invoke_after_not_empty:
  "h \<noteq> empty_function \<Longrightarrow> \<exists>cb'. invoke_after h cb S A = Inr cb'"
  by (cases h) simp_all

lemma establish_before_stolen:
  "is_before_handler_stolen (mEstablishBarrierBeforeOperationCallback s)
   \<Longrightarrow> establish_barrier_before_the_operation s cb S A = Inr cb"
  by (simp add: establish_barrier_before_the_operation_def)

lemma establish_before_unset:
  "mEstablishBarrierBeforeOperationCallback s = empty_function
   \<Longrightarrow> establish_barrier_before_the_operation s cb S A = Inr (default_handler_before_operation cb S A)"
  by (simp add: establish_barrier_before_the_operation_def is_before_handler_stolen_def)

lemma establish_before_custom:
  "\<not> is_before_handler_stolen (mEstablishBarrierBeforeOperationCallback s)
   \<Longrightarrow> mEstablishBarrierBeforeOperationCallback s \<noteq> empty_function
   \<Longrightarrow> establish_barrier_before_the_operation s cb S A
       = invoke_before (mEstablishBarrierBeforeOperationCallback s) cb S A"
  by (cases "mEstablishBarrierBeforeOperationCallback s")
     (simp_all add: establish_barrier_before_the_operation_def)

lemma establish_after_stolen:
  "is_after_handler_stolen (mEstablishBarrierAfterOperationCallback s)
   \<Longrightarrow> establish_barrier_after_the_operation s cb S A = Inr cb"
  by (simp add: establish_barrier_after_the_operation_def)

lemma establish_after_unset:
  "mEstablishBarrierAfterOperationCallback s = empty_function
   \<Longrightarrow> establish_barrier_after_the_operation s cb S A = Inr (default_handler_after_operation cb S A)"
  by (simp add: establish_barrier_after_the_operation_def is_after_handler_stolen_def)

lemma establish_after_custom:
  "\<not> is_after_handler_stolen (mEstablishBarrierAfterOperationCallback s)
   \<Longrightarrow> mEstablishBarrierAfterOperationCallback s \<noteq> empty_function
   \<Longrightarrow> establish_barrier_after_the_operation s cb S A
       = invoke_after (mEstablishBarrierAfterOperationCallback s) cb S A"
  by (cases "mEstablishBarrierAfterOperationCallback s")
     (simp_all add: establish_barrier_after_the_operation_def)

text \<open>
  Claim C3. For every command buffer, stage and optional access,
  \<open>establish_barrier_before_the_operation\<close> and \<open>establish_barrier_after_the_operation\<close>
  dispatch three ways on the stored hook. If it is the stolen-handler sentinel, the command
  buffer comes back as it was, with no call of the barrier primitive. If it is unset, the
  default handler of that direction runs on the same buffer, stage and access. Otherwise
  the stored hook is invoked on those same arguments, and that invocation does not fail.
\<close>

theorem establish_barrier_three_way_dispatch:
  "(is_before_handler_stolen (mEstablishBarrierBeforeOperationCallback s) \<longrightarrow>
      establish_barrier_before_the_operation s cb S A = Inr cb)
   \<and> (mEstablishBarrierBeforeOperationCallback s = empty_function \<longrightarrow>
      establish_barrier_before_the_operation s cb S A = Inr (default_handler_before_operation cb S A))
   \<and> (\<not> is_before_handler_stolen (mEstablishBarrierBeforeOperationCallback s)
        \<and> mEstablishBarrierBeforeOperationCallback s \<noteq> empty_function \<longrightarrow>
      establish_barrier_before_the_operation s cb S A
        = invoke_before (mEstablishBarrierBeforeOperationCallback s) cb S A
      \<and> (\<exists>cb'. establish_barrier_before_the_operation s cb S A = Inr cb'))
   \<and> (is_after_handler_stolen (mEstablishBarrierAfterOperationCallback s) \<longrightarrow>
      establish_barrier_after_the_operation s cb S' A' = Inr cb)
   \<and> (mEstablishBarrierAfterOperationCallback s = empty_function \<longrightarrow>
      establish_barrier_after_the_operation s cb S' A' = Inr (default_handler_after_operation cb S' A'))
   \<and> (\<not> is_after_handler_stolen (mEstablishBarrierAfterOperationCallback s)
        \<and> mEstablishBarrierAfterOperationCallback s \<noteq> empty_function \<longrightarrow>
      establish_barrier_after_the_operation s cb S' A'
        = invoke_after (mEstablishBarrierAfterOperationCallback s) cb S' A'
      \<and> (\<exists>cb'. establish_barrier_after_the_operation s cb S' A' = Inr cb'))"
  using invoke_before_not_empty [of "mEstablishBarrierBeforeOperationCallback s" cb S A]
    invoke_after_not_empty [of "mEstablishBarrierAfterOperationCallback s" cb S' A']
  by (simp add: establish_before_stolen establish_before_unset establish_before_custom
      establish_after_stolen establish_after_unset establish_after_custom)

text \<open>
  The dispatch at three policies: an auxiliary one with both sentinels, one with both hooks
  unset, and one with a closure before and the default handler stored after the operation.
\<close>

theorem establish_barrier_three_way_dispatch_witness:
  "establish_barrier_before_the_operation
      (auxiliary wait_idle (function_pointer ptr_steal_before_handler) (function_pointer ptr_steal_after_handler))
      \<lparr>recorded_calls = []\<rparr> (other_pipeline_stage 4) None
    = Inr \<lparr>recorded_calls = []\<rparr>
   \<and> establish_barrier_after_the_operation
      (auxiliary wait_idle (function_pointer ptr_steal_before_handler) (function_pointer ptr_steal_after_handler))
      \<lparr>recorded_calls = []\<rparr> (other_pipeline_stage 8) None
    = Inr \<lparr>recorded_calls = []\<rparr>
   \<and> establish_barrier_before_the_operation
      (with_barriers (Some (custom_command_buffer_handler 0)) empty_function empty_function)
      \<lparr>recorded_calls = []\<rparr> (other_pipeline_stage 4) (Some (read_memory_access (other_memory_access 2)))
    = Inr \<lparr>recorded_calls = [global_memory_barrier all_commands (other_pipeline_stage 4)
         (plain_access any_write_access)
         (optional_read_access (Some (read_memory_access (other_memory_access 2))))]\<rparr>
   \<and> establish_barrier_after_the_operation
      (with_barriers (Some (custom_command_buffer_handler 0)) empty_function empty_function)
      \<lparr>recorded_calls = []\<rparr> (other_pipeline_stage 8) None
    = Inr \<lparr>recorded_calls = [global_memory_barrier (other_pipeline_stage 8) all_commands
         (optional_write_access None) (plain_access any_read_access)]\<rparr>
   \<and> establish_barrier_before_the_operation
      (with_barriers (Some (custom_command_buffer_handler 0))
         (other_target (\<lambda>cb S A. cb\<lparr>recorded_calls := []\<rparr>))
         (function_pointer ptr_default_handler_after_operation))
      \<lparr>recorded_calls = [global_memory_barrier all_commands all_commands
         (plain_access any_write_access) (plain_access any_read_access)]\<rparr>
      (other_pipeline_stage 4) None
    = Inr \<lparr>recorded_calls = []\<rparr>
   \<and> establish_barrier_after_the_operation
      (with_barriers (Some (custom_command_buffer_handler 0))
         (other_target (\<lambda>cb S A. cb\<lparr>recorded_calls := []\<rparr>))
         (function_pointer ptr_default_handler_after_operation))
      \<lparr>recorded_calls = []\<rparr> (other_pipeline_stage 8) None
    = Inr \<lparr>recorded_calls = [global_memory_barrier (other_pipeline_stage 8) all_commands
         (optional_write_access None) (plain_access any_read_access)]\<rparr>"
  using
    establish_barrier_three_way_dispatch
      [of "auxiliary wait_idle (function_pointer ptr_steal_before_handler) (function_pointer ptr_steal_after_handler)"
          "\<lparr>recorded_calls = []\<rparr>" "other_pipeline_stage 4" None "other_pipeline_stage 8" None]
    establish_barrier_three_way_dispatch
      [of "with_barriers (Some (custom_command_buffer_handler 0)) empty_function empty_function"
          "\<lparr>recorded_calls = []\<rparr>" "other_pipeline_stage 4"
          "Some (read_memory_access (other_memory_access 2))" "other_pipeline_stage 8" None]
    establish_barrier_three_way_dispatch
      [of "with_barriers (Some (custom_command_buffer_handler 0))
         (other_target (\<lambda>cb S A. cb\<lparr>recorded_calls := []\<rparr>))
         (function_pointer ptr_default_handler_after_operation)"
          "\<lparr>recorded_calls = [global_memory_barrier all_commands all_commands
         (plain_access any_write_access) (plain_access any_read_access)]\<rparr>" "other_pipeline_stage 4" None]
    establish_barrier_three_way_dispatch
      [of "with_barriers (Some (custom_command_buffer_handler 0))
         (other_target (\<lambda>cb S A. cb\<lparr>recorded_calls := []\<rparr>))
         (function_pointer ptr_default_handler_after_operation)"
          "\<lparr>recorded_calls = []\<rparr>" _ _ "other_pipeline_stage 8" None]
  by (simp add: auxiliary_def with_barriers_def sync_ctor_def is_before_handler_stolen_def
      is_after_handler_stolen_def default_handler_before_operation_def
      default_handler_after_operation_def establish_global_memory_barrier_def)

section \<open>Factories and the strategy they configure\<close>

text \<open>
  A factory that stores a sink fixes the strategy, however policies without sinks are read.
\<close>

lemma factory_sync_types_with_sink:
  "get_sync_type r (with_semaphores (Some h) wl) = via_semaphore"
  "get_sync_type r (with_semaphores_on_current_frame wl win) = via_semaphore"
  "get_sync_type r (with_barriers (Some c) hb ha) = via_barrier"
  "get_sync_type r (with_barriers_on_current_frame hb ha win) = via_barrier"
  "get_sync_type r (auxiliary m hb ha) = via_barrier"
  by (simp_all add: get_sync_type_def with_semaphores_def
      with_semaphores_on_current_frame_def with_barriers_def with_barriers_on_current_frame_def
      auxiliary_def sync_ctor_def)

text \<open>Which of the two groups of strategy-specific fields each factory populates.\<close>

lemma factory_semaphore_fields:
  "\<not> semaphore_fields_populated sync_not_required"
  "\<not> semaphore_fields_populated wait_idle"
  "semaphore_fields_populated (with_semaphores (Some h) wl)"
  "semaphore_fields_populated (with_semaphores_on_current_frame wl win)"
  "\<not> semaphore_fields_populated (with_barriers ch hb ha)"
  "\<not> semaphore_fields_populated (with_barriers_on_current_frame hb ha win)"
  "\<not> semaphore_fields_populated (auxiliary m hb ha)"
  by (simp_all add: semaphore_fields_populated_def sync_not_required_def wait_idle_def
      with_semaphores_def with_semaphores_on_current_frame_def with_barriers_def
      with_barriers_on_current_frame_def auxiliary_def sync_ctor_def)

lemma factory_command_buffer_fields:
  "\<not> command_buffer_fields_populated sync_not_required"
  "\<not> command_buffer_fields_populated wait_idle"
  "\<not> command_buffer_fields_populated (with_semaphores sh wl)"
  "\<not> command_buffer_fields_populated (with_semaphores_on_current_frame wl win)"
  "command_buffer_fields_populated (with_barriers (Some c) hb ha)"
  "command_buffer_fields_populated (with_barriers_on_current_frame hb ha win)"
  "command_buffer_fields_populated (auxiliary m hb ha)"
  by (simp_all add: command_buffer_fields_populated_def sync_not_required_def wait_idle_def
      with_semaphores_def with_semaphores_on_current_frame_def with_barriers_def
      with_barriers_on_current_frame_def auxiliary_def sync_ctor_def)

section \<open>Submission with semaphores\<close>

lemma submit_via_semaphore:
  assumes "mQueueToUse s = Some q"
    and "mSemaphoreSignalAfterAndLifetimeHandler s = Some h"
  shows "submit_and_sync r s buf w =
     Inr (w\<lparr>events := events w @
            [semaphore_created (next_semaphore w),
             submitted q buf (mWaitBeforeSemaphores s) (Some (next_semaphore w)),
             semaphore_handler_invoked h (next_semaphore w)],
          next_semaphore := Suc (next_semaphore w)\<rparr>)"
  using assms
  by (simp add: submit_and_sync_def queue_to_use_def get_sync_type_def record_events_def Let_def)

text \<open>
  Claim C5. For a policy built by \<open>with_semaphores\<close> from a sink and a wait list and then
  bound to a queue (by \<open>on_queue\<close>, or by \<open>set_queue_hint\<close>), \<open>submit_and_sync\<close> succeeds:
  it creates a new semaphore, submits the buffer to that queue with the semaphores of the
  wait list, in order, as wait dependencies and the new semaphore as signal target, and
  invokes the sink exactly once, with the new semaphore. This holds under every reading of
  the policies without sinks, since the policy has its signal sink.
\<close>

theorem with_semaphores_submit_and_sync:
  "submit_and_sync r (on_queue (with_semaphores (Some h) wl) q) buf w =
     Inr (w\<lparr>events := events w @
            [semaphore_created (next_semaphore w),
             submitted q buf wl (Some (next_semaphore w)),
             semaphore_handler_invoked h (next_semaphore w)],
          next_semaphore := Suc (next_semaphore w)\<rparr>)
   \<and> submit_and_sync r (set_queue_hint (with_semaphores (Some h) wl) q) buf w =
       submit_and_sync r (on_queue (with_semaphores (Some h) wl) q) buf w
   \<and> (case submit_and_sync r (on_queue (with_semaphores (Some h) wl) q) buf w of
        Inl e \<Rightarrow> False
      | Inr w' \<Rightarrow>
          filter is_semaphore_handler_invocation (drop (length (events w)) (events w'))
            = [semaphore_handler_invoked h (next_semaphore w)])"
proof -
  let ?s = "on_queue (with_semaphores (Some h) wl) q"
  have q: "mQueueToUse ?s = Some q"
    and h: "mSemaphoreSignalAfterAndLifetimeHandler ?s = Some h"
    and wl: "mWaitBeforeSemaphores ?s = wl"
    by (simp_all add: on_queue_def with_semaphores_def sync_ctor_def)
  have hint: "set_queue_hint (with_semaphores (Some h) wl) q = ?s"
    by (simp add: set_queue_hint_def on_queue_def with_semaphores_def sync_ctor_def)
  show ?thesis
    by (simp add: submit_via_semaphore [OF q h] wl hint)
qed

section \<open>The defaults of with_barriers\<close>

text \<open>
  Claim C6. A policy built by \<open>with_barriers\<close> with the lifetime sink alone has its hook
  after the operation set to \<open>default_handler_after_operation\<close> from construction on,
  while its hook before the operation is left unset; the before-hook only falls back to
  \<open>default_handler_before_operation\<close> when the barrier is established. Both establish
  operations then run the default handler of their direction.
\<close>

theorem with_barriers_default_hooks_asymmetry:
  "mEstablishBarrierAfterOperationCallback (with_barriers_default_hooks sink)
     = function_pointer ptr_default_handler_after_operation
   \<and> mEstablishBarrierBeforeOperationCallback (with_barriers_default_hooks sink) = empty_function
   \<and> establish_barrier_before_the_operation (with_barriers_default_hooks sink) cb S A
     = Inr (default_handler_before_operation cb S A)
   \<and> establish_barrier_after_the_operation (with_barriers_default_hooks sink) cb S' A'
     = Inr (default_handler_after_operation cb S' A')"
  by (simp add: with_barriers_default_hooks_def with_barriers_def sync_ctor_def
      establish_barrier_before_the_operation_def establish_barrier_after_the_operation_def
      is_before_handler_stolen_def is_after_handler_stolen_def)

section \<open>Queue binding\<close>

lemma hints_keep_binding:
  "mQueueToUse s = Some q
   \<Longrightarrow> mQueueToUse (apply_binding_calls s (map call_set_queue_hint hs)) = Some q"
  by (induction hs arbitrary: s) (simp_all add: set_queue_hint_def)

lemma apply_binding_calls_append:
  "apply_binding_calls s (cs @ ds) = apply_binding_calls (apply_binding_calls s cs) ds"
  by (induction cs arbitrary: s) simp_all

lemma last_on_queue_wins:
  "mQueueToUse (apply_binding_calls s (cs @ call_on_queue q # map call_set_queue_hint hs)) = Some q"
proof -
  have "mQueueToUse (on_queue (apply_binding_calls s cs) q) = Some q"
    by (simp add: on_queue_def)
  then show ?thesis
    by (simp add: apply_binding_calls_append hints_keep_binding)
qed

lemma factories_bind_no_queue:
  "mQueueToUse sync_ctor = None"
  "mQueueToUse sync_not_required = None"
  "mQueueToUse wait_idle = None"
  "mQueueToUse (with_semaphores sh wl) = None"
  "mQueueToUse (with_semaphores_on_current_frame wl win) = None"
  "mQueueToUse (with_barriers ch hb ha) = None"
  "mQueueToUse (with_barriers_on_current_frame hb ha win) = None"
  "mQueueToUse (auxiliary m hb ha) = None"
  by (simp_all add: sync_not_required_def wait_idle_def with_semaphores_def
      with_semaphores_on_current_frame_def with_barriers_def with_barriers_on_current_frame_def
      auxiliary_def sync_ctor_def)

text \<open>
  Claim C7. On a policy without a queue binding, as every factory returns it,
  \<open>queue_to_use\<close> fails as a precondition violation and returns no queue. On a policy with
  a binding it returns the bound queue. An explicit \<open>on_queue\<close> takes precedence over
  hints: after any run of binding calls whose last \<open>on_queue\<close> names \<open>q\<close>, whatever hints
  come before or after it, \<open>queue_to_use\<close> returns \<open>q\<close>; a hint given to an unbound
  policy is used.
\<close>

theorem queue_to_use_binding:
  "(mQueueToUse s = None \<longrightarrow> queue_to_use s = Inl precondition_violation)
   \<and> (mQueueToUse s = Some q' \<longrightarrow> queue_to_use s = Inr q')
   \<and> queue_to_use (apply_binding_calls s (cs @ call_on_queue q # map call_set_queue_hint hs)) = Inr q
   \<and> (mQueueToUse s = None \<longrightarrow> queue_to_use (set_queue_hint s h) = Inr h)
   \<and> queue_to_use sync_not_required = Inl precondition_violation
   \<and> queue_to_use wait_idle = Inl precondition_violation
   \<and> queue_to_use (with_semaphores sh wl) = Inl precondition_violation
   \<and> queue_to_use (with_semaphores_on_current_frame wl win) = Inl precondition_violation
   \<and> queue_to_use (with_barriers ch hb ha) = Inl precondition_violation
   \<and> queue_to_use (with_barriers_on_current_frame hb ha win) = Inl precondition_violation
   \<and> queue_to_use (auxiliary m hb ha) = Inl precondition_violation"
  using last_on_queue_wins [of s cs q hs]
  by (simp add: queue_to_use_def set_queue_hint_def factories_bind_no_queue
      del: apply_binding_calls.simps list.map)

text \<open>
  The binding rules on \<open>wait_idle\<close>: unbound; bound by \<open>on_queue\<close>; a hint, then an
  explicit binding, then another hint; a hint alone.
\<close>

theorem queue_to_use_binding_witness:
  "queue_to_use wait_idle = Inl precondition_violation
   \<and> queue_to_use (on_queue wait_idle 3) = Inr 3
   \<and> queue_to_use (set_queue_hint (on_queue (set_queue_hint wait_idle 1) 2) 5) = Inr 2
   \<and> queue_to_use (set_queue_hint wait_idle 7) = Inr 7"
  using queue_to_use_binding [where s = wait_idle]
    queue_to_use_binding [where s = "on_queue wait_idle 3" and q' = 3]
    queue_to_use_binding [where s = wait_idle and cs = "[call_set_queue_hint 1]" and q = 2 and hs = "[5]"]
    queue_to_use_binding [where s = wait_idle and h = 7]
  by (simp add: wait_idle_def sync_ctor_def on_queue_def set_queue_hint_def)

section \<open>The default-constructed policy\<close>

text \<open>
  The member initialisers of the header leave a default-constructed policy with the flag
  \<open>mNoSyncRequired\<close> false, no sink, no hook, no wait list and no queue. Let \<open>g\<close> be any
  function from policies to strategies. If \<open>not_required\<close> and \<open>wait_idle\<close> return policies
  that differ from a default-constructed one in the flag at most, if \<open>g\<close> gives each of
  the two its documented strategy, and if the policy of \<open>not_required\<close> is distinct from a
  default-constructed one, then \<open>g\<close> reads a default-constructed policy as "wait idle". So
  over the fields of the header, "a default-constructed policy reads as not required and is
  distinct from the one of \<open>not_required\<close>" and "\<open>not_required\<close> and \<open>wait_idle\<close> read as
  documented" cannot both hold of such factories.
\<close>

lemma default_constructed_reads_as_wait_idle_for_any_getter:
  fixes g :: "sync \<Rightarrow> sync_type"
  assumes nr: "nr = sync_ctor\<lparr>mNoSyncRequired := b\<rparr>"
    and wi: "wi = sync_ctor\<lparr>mNoSyncRequired := c\<rparr>"
    and g_nr: "g nr = not_required"
    and g_wi: "g wi = via_wait_idle"
    and distinct: "nr \<noteq> sync_ctor"
  shows "g sync_ctor = via_wait_idle"
proof -
  have b: "b"
  proof (rule ccontr)
    assume "\<not> b"
    then have "nr = sync_ctor" by (simp add: nr sync_ctor_def)
    with distinct show False by simp
  qed
  have "\<not> c"
  proof
    assume "c"
    with b have "wi = nr" by (simp add: nr wi)
    with g_nr g_wi show False by simp
  qed
  then have "wi = sync_ctor" by (simp add: wi sync_ctor_def)
  with g_wi show ?thesis by simp
qed

section \<open>semaphore_t: wait stage and destruction\<close>

text \<open>
  Claim C9. A default-constructed \<open>semaphore_t\<close> has its wait stage for the next command
  set to the all-commands pipeline stage. \<open>set_semaphore_wait_stage\<close> replaces that field
  of its object with exactly the given stage, leaves the other fields of the object and
  every other object unchanged, and returns a reference to the object it was called on.
\<close>

theorem semaphore_wait_stage:
  "mSemaphoreWaitStageForNextCommand semaphore_t_ctor = eAllCommands
   \<and> fst (set_semaphore_wait_stage this S h) = this
   \<and> snd (set_semaphore_wait_stage this S h)
       = h(this := (h this)\<lparr>mSemaphoreWaitStageForNextCommand := S\<rparr>)
   \<and> mSemaphoreWaitStageForNextCommand (snd (set_semaphore_wait_stage this S h) this) = S
   \<and> mCreateInfo (snd (set_semaphore_wait_stage this S h) this) = mCreateInfo (h this)
   \<and> mSemaphore (snd (set_semaphore_wait_stage this S h) this) = mSemaphore (h this)
   \<and> mCustomDeleter (snd (set_semaphore_wait_stage this S h) this) = mCustomDeleter (h this)"
  by (simp add: semaphore_t_ctor_def set_semaphore_wait_stage_def)

lemma dtor_with_deleter:
  "semaphore_t_dtor (s\<lparr>mCustomDeleter := Some (unique_function_target d)\<rparr>) tr
     = tr @ [deleter_invoked d, members_destroyed (s\<lparr>mCustomDeleter := None\<rparr>)]"
  by (simp add: semaphore_t_dtor_def semaphore_t_dtor_body_def)

lemma dtor_without_deleter:
  "semaphore_t_dtor (s\<lparr>mCustomDeleter := None\<rparr>) tr
     = tr @ [members_destroyed (s\<lparr>mCustomDeleter := None\<rparr>)]"
  by (simp add: semaphore_t_dtor_def semaphore_t_dtor_body_def)

lemma deleter_calls_append:
  "deleter_calls (xs @ ys) = deleter_calls xs @ deleter_calls ys"
  by (induction xs rule: deleter_calls.induct) simp_all

lemma dtor_with_empty_deleter:
  "semaphore_t_dtor (s\<lparr>mCustomDeleter := Some empty_unique_function\<rparr>) tr
     = tr @ [members_destroyed (s\<lparr>mCustomDeleter := Some empty_unique_function\<rparr>)]"
  by (simp add: semaphore_t_dtor_def semaphore_t_dtor_body_def)

lemma create_keeps_deleter_of_alteration:
  "mCustomDeleter (fst (create (Some f) device)) = mCustomDeleter (f semaphore_t_ctor)"
  by (simp add: create_def semaphore_t_ctor_def)

text \<open>
  Claim C10. When a \<open>semaphore_t\<close> with a custom deleter that is present and non-empty is
  destroyed, the deleter is invoked exactly once and the field is cleared before the
  members are destroyed. When no custom deleter is present, as after default construction
  or after \<open>create\<close> without an alteration, destruction invokes no deleter.
\<close>

theorem semaphore_destruction:
  "semaphore_t_dtor (s\<lparr>mCustomDeleter := Some (unique_function_target d)\<rparr>) tr
     = tr @ [deleter_invoked d, members_destroyed (s\<lparr>mCustomDeleter := None\<rparr>)]
   \<and> deleter_calls (semaphore_t_dtor (s\<lparr>mCustomDeleter := Some (unique_function_target d)\<rparr>) tr)
     = deleter_calls tr @ [d]
   \<and> semaphore_t_dtor (s\<lparr>mCustomDeleter := None\<rparr>) tr
     = tr @ [members_destroyed (s\<lparr>mCustomDeleter := None\<rparr>)]
   \<and> deleter_calls (semaphore_t_dtor (s\<lparr>mCustomDeleter := None\<rparr>) tr) = deleter_calls tr
   \<and> mCustomDeleter semaphore_t_ctor = None
   \<and> deleter_calls (semaphore_t_dtor semaphore_t_ctor tr) = deleter_calls tr
   \<and> mCustomDeleter (fst (create None device)) = None
   \<and> deleter_calls (semaphore_t_dtor (fst (create None device)) tr) = deleter_calls tr"
proof -
  have ctor: "semaphore_t_ctor = semaphore_t_ctor\<lparr>mCustomDeleter := None\<rparr>"
    by (simp add: semaphore_t_ctor_def)
  have created: "fst (create None device) = (fst (create None device))\<lparr>mCustomDeleter := None\<rparr>"
    by (simp add: create_def semaphore_t_ctor_def)
  have c1: "deleter_calls (semaphore_t_dtor semaphore_t_ctor tr) = deleter_calls tr"
    using dtor_without_deleter [of semaphore_t_ctor tr] ctor
    by (simp add: deleter_calls_append)
  have c2: "deleter_calls (semaphore_t_dtor (fst (create None device)) tr) = deleter_calls tr"
    using dtor_without_deleter [of "fst (create None device)" tr] created
    by (simp add: deleter_calls_append)
  have c3: "mCustomDeleter (fst (create None device)) = None"
    by (simp add: create_def semaphore_t_ctor_def)
  show ?thesis
    by (simp add: dtor_with_deleter dtor_without_deleter deleter_calls_append c1 c2 c3)
       (simp add: semaphore_t_ctor_def)
qed

end
